theory Spec2Isabelle
  imports Complex_Main "HOL-Library.AList"
begin

section \<open>Values of the program\<close>

text \<open>
  The program (\<^verbatim>\<open>src/main.py\<close>) handles parsed JSON throughout: the request body, the
  pathway nodes, the assistant configuration and the call states are what
  \<^verbatim>\<open>json.load\<close> and \<^verbatim>\<open>request.get_json\<close> return. A JSON object is a Python dict, whose
  keys are strings and which enumerates in insertion order: an association list.
  Numbers are integers here; floating point numbers are not modelled.
  Python's \<^verbatim>\<open>None\<close> is \<open>JNull\<close>.
\<close>

datatype json =
    JNull
  | JBool bool
  | JNum int
  | JStr string
  | JArr "json list"
  | JObj "(string \<times> json) list"

type_synonym dict = "(string \<times> json) list"

text \<open>The exceptions the code can raise; none of them is caught by the handlers,
  except \<open>JSONDecodeError\<close> inside the stream generator. \<open>ProviderError\<close> is a failure
  of the call to the language-model provider.\<close>

datatype py_error =
    KeyError
  | TypeError
  | AttributeError
  | IndexError
  | JSONDecodeError
  | ProviderError

text \<open>Python truth value of a JSON value, as tested by \<^verbatim>\<open>if x:\<close> and \<^verbatim>\<open>not x\<close>.\<close>

fun truthy :: "json \<Rightarrow> bool" where
  "truthy JNull = False"
| "truthy (JBool b) = b"
| "truthy (JNum n) = (n \<noteq> 0)"
| "truthy (JStr s) = (s \<noteq> [])"
| "truthy (JArr xs) = (xs \<noteq> [])"
| "truthy (JObj kvs) = (kvs \<noteq> [])"

text \<open>Lists and dicts are unhashable: using one as a dict key raises \<^verbatim>\<open>TypeError\<close>.\<close>

fun hashable :: "json \<Rightarrow> bool" where
  "hashable (JArr xs) = False"
| "hashable (JObj kvs) = False"
| "hashable v = True"

text \<open>Python compares dict keys with \<^verbatim>\<open>==\<close>, under which \<^verbatim>\<open>True\<close> is \<^verbatim>\<open>1\<close> and \<^verbatim>\<open>False\<close>
  is \<^verbatim>\<open>0\<close>; strings, integers and \<^verbatim>\<open>None\<close> are equal to themselves only.\<close>

fun key_norm :: "json \<Rightarrow> json" where
  "key_norm (JBool b) = JNum (if b then 1 else 0)"
| "key_norm v = v"

definition key_eq :: "json \<Rightarrow> json \<Rightarrow> bool" where
  "key_eq a b = (key_norm a = key_norm b)"

text \<open>\<^verbatim>\<open>x.get(key, default)\<close>: only a dict has the method.\<close>

fun py_get :: "json \<Rightarrow> string \<Rightarrow> json \<Rightarrow> py_error + json" where
  "py_get (JObj d) k dflt = (case map_of d k of None \<Rightarrow> Inr dflt | Some v \<Rightarrow> Inr v)"
| "py_get v k dflt = Inl AttributeError"

text \<open>\<^verbatim>\<open>x[key]\<close> with a string key: a dict raises \<^verbatim>\<open>KeyError\<close> on a missing key; a list, a
  string, a number, a boolean and \<^verbatim>\<open>None\<close> raise \<^verbatim>\<open>TypeError\<close>.\<close>

fun py_subscript :: "json \<Rightarrow> string \<Rightarrow> py_error + json" where
  "py_subscript (JObj d) k = (case map_of d k of None \<Rightarrow> Inl KeyError | Some v \<Rightarrow> Inr v)"
| "py_subscript v k = Inl TypeError"

text \<open>\<^verbatim>\<open>x[0]\<close>: the first element of a list, the first character of a string; a dict
  has no key \<open>0\<close> (its keys are strings); the other values are not subscriptable.\<close>

fun py_first :: "json \<Rightarrow> py_error + json" where
  "py_first (JArr xs) = (case xs of [] \<Rightarrow> Inl IndexError | x # _ \<Rightarrow> Inr x)"
| "py_first (JStr s) = (case s of [] \<Rightarrow> Inl IndexError | c # _ \<Rightarrow> Inr (JStr [c]))"
| "py_first (JObj d) = Inl KeyError"
| "py_first v = Inl TypeError"

text \<open>\<^verbatim>\<open>x[-1]\<close>: the last element of a list, the last character of a string.\<close>

fun py_last :: "json \<Rightarrow> py_error + json" where
  "py_last (JArr xs) = (if xs = [] then Inl IndexError else Inr (last xs))"
| "py_last (JStr s) = (if s = [] then Inl IndexError else Inr (JStr [last s]))"
| "py_last (JObj d) = Inl KeyError"
| "py_last v = Inl TypeError"

subsection \<open>Dict keys that are not strings\<close>

text \<open>
  \<^verbatim>\<open>json.dump\<close> writes a key that is not a string as a string: \<^verbatim>\<open>None\<close> as \<^verbatim>\<open>null\<close>,
  \<^verbatim>\<open>True\<close> as \<^verbatim>\<open>true\<close>, an integer in decimal.
\<close>

definition digit_char :: "nat \<Rightarrow> char" where
  "digit_char d = char_of (48 + d)"

fun str_nat :: "nat \<Rightarrow> string" where
  "str_nat n = (if n < 10 then [digit_char n] else str_nat (n div 10) @ [digit_char (n mod 10)])"

declare str_nat.simps [simp del]

definition str_int :: "int \<Rightarrow> string" where
  "str_int i = (if i < 0 then CHR ''-'' # str_nat (nat (- i)) else str_nat (nat i))"

fun dump_key :: "json \<Rightarrow> string" where
  "dump_key (JStr s) = s"
| "dump_key JNull = ''null''"
| "dump_key (JBool b) = (if b then ''true'' else ''false'')"
| "dump_key (JNum n) = str_int n"
| "dump_key v = []"

section \<open>Pathway graph and call state store\<close>

text \<open>
  \<open>flow_nodes\<close> is the module global built once by \<^verbatim>\<open>load_pathways\<close>: a dict from the
  node's name to the node, in the order of the pathway file. A name is whatever
  hashable JSON value the node holds under \<^verbatim>\<open>"name"\<close> (a string, a number, a boolean or
  \<^verbatim>\<open>null\<close>), and every node is a JSON object (\<^verbatim>\<open>load_pathways\<close> subscripts it with the
  string \<^verbatim>\<open>"name"\<close>). The graph is a parameter of the functions that read it.

  The call states live in the file \<^verbatim>\<open>call_states.json\<close>; every operation starts with
  \<^verbatim>\<open>load_call_states\<close> and writes with \<^verbatim>\<open>save_call_states\<close>. The state of the model is
  what \<^verbatim>\<open>load_call_states\<close> returns: a dict with string keys.
\<close>

type_synonym flow_nodes = "(json \<times> dict) list"
type_synonym call_states = "(string \<times> json) list"

text \<open>The node stored under a key, if any, and \<^verbatim>\<open>k in flow_nodes\<close>, for a hashable key.\<close>

fun graph_find :: "flow_nodes \<Rightarrow> json \<Rightarrow> dict option" where
  "graph_find [] k = None"
| "graph_find ((k', v) # rest) k = (if key_eq k' k then Some v else graph_find rest k)"

definition has_node :: "flow_nodes \<Rightarrow> json \<Rightarrow> bool" where
  "has_node fl k = (graph_find fl k \<noteq> None)"

text \<open>\<^verbatim>\<open>d[k] = v\<close> on the graph: a key that is already there keeps its place and its
  own value as key, and takes the new node; a new key is appended.\<close>

fun graph_insert :: "json \<Rightarrow> dict \<Rightarrow> flow_nodes \<Rightarrow> flow_nodes" where
  "graph_insert k v [] = [(k, v)]"
| "graph_insert k v ((k', v') # rest) =
     (if key_eq k' k then (k', v) # rest else (k', v') # graph_insert k v rest)"

text \<open>\<^verbatim>\<open>load_pathways\<close> (lines 69 to 72), from the parsed pathway file: the dict
  comprehension \<^verbatim>\<open>{node["name"]: node for node in raw_nodes}\<close>. Only a dict can be
  subscripted with a string; an unhashable name raises \<^verbatim>\<open>TypeError\<close>. Iterating a dict
  or a string yields strings, which cannot be subscripted with \<^verbatim>\<open>"name"\<close>; a number, a
  boolean and \<^verbatim>\<open>None\<close> cannot be iterated.\<close>

fun load_nodes :: "json list \<Rightarrow> flow_nodes \<Rightarrow> py_error + flow_nodes" where
  "load_nodes [] acc = Inr acc"
| "load_nodes (node # nodes) acc =
     (case py_subscript node ''name'' of
        Inl e \<Rightarrow> Inl e
      | Inr k \<Rightarrow>
          (case node of
             JObj d \<Rightarrow> if hashable k then load_nodes nodes (graph_insert k d acc) else Inl TypeError
           | _ \<Rightarrow> Inl TypeError))"

definition load_pathways :: "json \<Rightarrow> py_error + flow_nodes" where
  "load_pathways raw_nodes =
     (case raw_nodes of
        JArr nodes \<Rightarrow> load_nodes nodes []
      | JObj d \<Rightarrow> if d = [] then Inr [] else Inl TypeError
      | JStr s \<Rightarrow> if s = [] then Inr [] else Inl TypeError
      | _ \<Rightarrow> Inl TypeError)"

text \<open>\<^verbatim>\<open>states.get(call_id)\<close>: \<^verbatim>\<open>None\<close> for a missing key; a key that is not a string
  equals no key of the loaded file; an unhashable key raises.\<close>

fun states_get :: "call_states \<Rightarrow> json \<Rightarrow> py_error + json" where
  "states_get states (JStr s) = (case map_of states s of None \<Rightarrow> Inr JNull | Some v \<Rightarrow> Inr v)"
| "states_get states (JArr xs) = Inl TypeError"
| "states_get states (JObj d) = Inl TypeError"
| "states_get states v = Inr JNull"

text \<open>\<^verbatim>\<open>states[call_id] = node_name; save_call_states(states)\<close>, as the next
  \<^verbatim>\<open>load_call_states\<close> reads it: an existing key keeps its position and takes the new
  value, a new key is appended.\<close>

definition states_put :: "call_states \<Rightarrow> json \<Rightarrow> json \<Rightarrow> call_states" where
  "states_put states call_id node_name = AList.update (dump_key call_id) node_name states"

text \<open>Line 91: \<^verbatim>\<open>"start" if "start" in flow_nodes else list(flow_nodes.keys())[0]\<close>.\<close>

definition default_node_name :: "flow_nodes \<Rightarrow> py_error + json" where
  "default_node_name flow_nodes =
     (if has_node flow_nodes (JStr ''start'') then Inr (JStr ''start'')
      else (case flow_nodes of [] \<Rightarrow> Inl IndexError | (k, _) # _ \<Rightarrow> Inr k))"

text \<open>\<^verbatim>\<open>get_current_node_name\<close> (lines 86 to 95). The result is the store after the call
  and the returned node name, or the exception raised.\<close>

definition get_current_node_name ::
  "flow_nodes \<Rightarrow> json \<Rightarrow> call_states \<Rightarrow> call_states \<times> (py_error + json)" where
  "get_current_node_name flow_nodes call_id states =
     (case states_get states call_id of
        Inl e \<Rightarrow> (states, Inl e)
      | Inr node_name \<Rightarrow>
          if \<not> truthy node_name then
            (case default_node_name flow_nodes of
               Inl e \<Rightarrow> (states, Inl e)
             | Inr node_name' \<Rightarrow> (states_put states call_id node_name', Inr node_name'))
          else (states, Inr node_name))"

text \<open>\<^verbatim>\<open>set_current_node_name\<close> (lines 97 to 100).\<close>

definition set_current_node_name :: "json \<Rightarrow> json \<Rightarrow> call_states \<Rightarrow> py_error + call_states" where
  "set_current_node_name call_id node_name states =
     (if hashable call_id then Inr (states_put states call_id node_name) else Inl TypeError)"


section \<open>The dispatcher\<close>

text \<open>
  \<open>assistant_config\<close> is the module global loaded by \<^verbatim>\<open>load_assistant_config\<close>: a dict.
  It is a parameter of the functions that read it.
\<close>

text \<open>\<^verbatim>\<open>d.get(key, default)\<close> on a dict.\<close>

definition dict_get :: "dict \<Rightarrow> string \<Rightarrow> json \<Rightarrow> json" where
  "dict_get d k dflt = (case map_of d k of None \<Rightarrow> dflt | Some v \<Rightarrow> v)"

text \<open>\<^verbatim>\<open>flow_nodes[current_node_name]\<close> (line 154) and \<^verbatim>\<open>next_node_name in flow_nodes\<close>
  (line 184): an unhashable value raises \<^verbatim>\<open>TypeError\<close>, a hashable one is looked up
  among the keys of the graph.\<close>

definition flow_lookup :: "flow_nodes \<Rightarrow> json \<Rightarrow> py_error + dict" where
  "flow_lookup fl k =
     (if hashable k then
        (case graph_find fl k of None \<Rightarrow> Inl KeyError | Some n \<Rightarrow> Inr n)
      else Inl TypeError)"

definition flow_member :: "flow_nodes \<Rightarrow> json \<Rightarrow> py_error + bool" where
  "flow_member fl k = (if hashable k then Inr (has_node fl k) else Inl TypeError)"

text \<open>\<^verbatim>\<open>get_available_functions\<close> (lines 102 to 121).\<close>

definition transferCall_descriptor :: json where
  "transferCall_descriptor =
     JObj [(''name'', JStr ''transferCall''),
           (''description'', JStr ''Transfer the call to another phone number''),
           (''parameters'',
              JObj [(''type'', JStr ''object''),
                    (''properties'',
                       JObj [(''destination'',
                                JObj [(''type'', JStr ''string''),
                                      (''description'',
                                         JStr ''The destination phone number to transfer the call to'')])]),
                    (''required'', JArr [JStr ''destination''])])]"

definition get_available_functions :: "dict \<Rightarrow> json list" where
  "get_available_functions assistant_config =
     (if truthy (dict_get assistant_config ''forwardingPhoneNumber'' JNull)
      then [transferCall_descriptor] else [])"

text \<open>Lines 156 and 157: the instruction of the node, with its default.\<close>

definition no_instructions :: string where
  "no_instructions = ''No instructions available.''"

definition next_prompt :: "dict \<Rightarrow> py_error + json" where
  "next_prompt current_node =
     py_get (dict_get current_node ''block'' (JObj [])) ''instruction'' (JStr no_instructions)"

text \<open>Lines 159 to 161. \<^verbatim>\<open>+=\<close> concatenates two strings; on a list it appends the
  characters of the sentence, in place: the list is the one the graph holds, and
  \<open>flow_nodes_after\<close> below gives the graph after the request. On any other value
  \<^verbatim>\<open>+=\<close> raises \<^verbatim>\<open>TypeError\<close>. The subscript raises \<^verbatim>\<open>KeyError\<close> when the configuration has
  no forwarding number.\<close>

definition transfer_sentence :: string where
  "transfer_sentence =
     CHR 0x0A # ''If the user requests a transfer, you can transfer them using the transferCall function.''"

definition system_message :: "dict \<Rightarrow> json \<Rightarrow> py_error + json" where
  "system_message assistant_config prompt =
     (case map_of assistant_config ''forwardingPhoneNumber'' of
        None \<Rightarrow> Inl KeyError
      | Some fwd \<Rightarrow>
          if truthy fwd then
            (case prompt of
               JStr s \<Rightarrow> Inr (JStr (s @ transfer_sentence))
             | JArr xs \<Rightarrow> Inr (JArr (xs @ map (\<lambda>c. JStr [c]) transfer_sentence))
             | _ \<Rightarrow> Inl TypeError)
          else Inr prompt)"

text \<open>Lines 163 to 166, for the request body \<open>request_data\<close>, a dict.\<close>

definition system_entry :: "json \<Rightarrow> json" where
  "system_entry sm = JObj [(''role'', JStr ''system''), (''content'', sm)]"

definition messages_of :: "dict \<Rightarrow> json \<Rightarrow> py_error + json list" where
  "messages_of request_data sm =
     (case map_of request_data ''messages'' of
        None \<Rightarrow> Inr [system_entry sm]
      | Some ms \<Rightarrow>
          if truthy ms then
            (case py_last ms of
               Inl e \<Rightarrow> Inl e
             | Inr m \<Rightarrow> Inr [system_entry sm, m])
          else Inr [system_entry sm])"

text \<open>Lines 168 to 179: the keyword arguments of the provider call. \<open>functions_arg\<close> and
  \<open>function_call_arg\<close> are the keys \<^verbatim>\<open>functions\<close> and \<^verbatim>\<open>function_call\<close>, \<open>None\<close> when the
  key is not set.\<close>

record openai_params =
  model :: json
  messages :: "json list"
  max_tokens :: int
  temperature :: rat
  stream :: json
  functions_arg :: "json list option"
  function_call_arg :: "string option"

definition build_openai_params ::
  "dict \<Rightarrow> json list \<Rightarrow> json \<Rightarrow> py_error + openai_params" where
  "build_openai_params assistant_config msgs streaming =
     (case map_of assistant_config ''model'' of
        None \<Rightarrow> Inl KeyError
      | Some m \<Rightarrow>
          (case py_subscript m ''model'' of
             Inl e \<Rightarrow> Inl e
           | Inr mid \<Rightarrow>
               (let fs = get_available_functions assistant_config in
                Inr \<lparr> model = mid, messages = msgs, max_tokens = 1000, temperature = 2 / 10,
                      stream = streaming,
                      functions_arg = (if fs \<noteq> [] then Some fs else None),
                      function_call_arg = (if fs \<noteq> [] then Some ''auto'' else None) \<rparr>)))"

text \<open>Lines 181 to 184: the node to advance to, if any.\<close>

definition next_node :: "flow_nodes \<Rightarrow> dict \<Rightarrow> py_error + json option" where
  "next_node fl current_node =
     (let destinations = dict_get current_node ''destinations'' (JArr []) in
      if truthy destinations then
        (case py_first destinations of
           Inl e \<Rightarrow> Inl e
         | Inr d \<Rightarrow>
             (case py_get d ''stepName'' JNull of
                Inl e \<Rightarrow> Inl e
              | Inr next_node_name \<Rightarrow>
                  if truthy next_node_name then
                    (case flow_member fl next_node_name of
                       Inl e \<Rightarrow> Inl e
                     | Inr b \<Rightarrow> Inr (if b then Some next_node_name else None))
                  else Inr None))
      else Inr None)"

text \<open>
  \<^verbatim>\<open>openai_advanced_custom_llm_route\<close>, lines 151 to 154, for the request body
  \<open>request_data\<close>, a dict: the call id, the name of the current node and the node. The
  store is returned as \<open>get_current_node_name\<close> leaves it.
\<close>

definition resolve_current_node ::
  "flow_nodes \<Rightarrow> dict \<Rightarrow> call_states \<Rightarrow> call_states \<times> (py_error + json \<times> json \<times> dict)" where
  "resolve_current_node fl request_data states =
     (case map_of request_data ''call'' of
        None \<Rightarrow> (states, Inl KeyError)
      | Some call \<Rightarrow>
          (case py_subscript call ''id'' of
             Inl e \<Rightarrow> (states, Inl e)
           | Inr call_id \<Rightarrow>
               (case get_current_node_name fl call_id states of
                  (states1, Inl e) \<Rightarrow> (states1, Inl e)
                | (states1, Inr current_node_name) \<Rightarrow>
                    (case flow_lookup fl current_node_name of
                       Inl e \<Rightarrow> (states1, Inl e)
                     | Inr current_node \<Rightarrow>
                         (states1, Inr (call_id, current_node_name, current_node))))))"

text \<open>Lines 156 to 179: the provider parameters for the current node, the request body
  and the streaming flag.\<close>

definition provider_request :: "dict \<Rightarrow> dict \<Rightarrow> dict \<Rightarrow> json \<Rightarrow> py_error + openai_params" where
  "provider_request assistant_config current_node request_data streaming =
     (case next_prompt current_node of
        Inl e \<Rightarrow> Inl e
      | Inr prompt \<Rightarrow>
          (case system_message assistant_config prompt of
             Inl e \<Rightarrow> Inl e
           | Inr sm \<Rightarrow>
               (case messages_of request_data sm of
                  Inl e \<Rightarrow> Inl e
                | Inr msgs \<Rightarrow> build_openai_params assistant_config msgs streaming)))"

text \<open>
  \<^verbatim>\<open>openai_advanced_custom_llm_route\<close>, lines 149 to 185: everything the handler does
  before it calls the provider. \<^verbatim>\<open>request_data.get\<close> (line 150) raises unless the body
  is a dict. The result is the call state store as the handler leaves it, and either
  the exception raised or the streaming flag with the provider parameters. The store
  keeps what was written before an exception.
\<close>

definition prepare_dispatch ::
  "dict \<Rightarrow> flow_nodes \<Rightarrow> json \<Rightarrow> call_states \<Rightarrow> call_states \<times> (py_error + json \<times> openai_params)" where
  "prepare_dispatch assistant_config fl request_data states =
     (case request_data of
        JObj rd \<Rightarrow>
          (let streaming = dict_get rd ''stream'' (JBool False) in
           case resolve_current_node fl rd states of
             (states1, Inl e) \<Rightarrow> (states1, Inl e)
           | (states1, Inr (call_id, current_node_name, current_node)) \<Rightarrow>
               (case provider_request assistant_config current_node rd streaming of
                  Inl e \<Rightarrow> (states1, Inl e)
                | Inr params \<Rightarrow>
                    (case next_node fl current_node of
                       Inl e \<Rightarrow> (states1, Inl e)
                     | Inr None \<Rightarrow> (states1, Inr (streaming, params))
                     | Inr (Some next_node_name) \<Rightarrow>
                         (case set_current_node_name call_id next_node_name states1 of
                            Inl e \<Rightarrow> (states1, Inl e)
                          | Inr states2 \<Rightarrow> (states2, Inr (streaming, params))))))
      | _ \<Rightarrow> (states, Inl AttributeError))"

text \<open>
  The graph after a request. Line 161 is the only place where the handler changes an
  object of the graph: when the instruction of the current node is a list and the
  forwarding number is set, \<^verbatim>\<open>+=\<close> extends that list in place, and the change stays
  whatever the rest of the handler does. In every other case the graph is left as it
  was.
\<close>

definition set_instruction :: "dict \<Rightarrow> json \<Rightarrow> dict" where
  "set_instruction current_node v =
     (case map_of current_node ''block'' of
        Some (JObj b) \<Rightarrow>
          AList.update ''block'' (JObj (AList.update ''instruction'' v b)) current_node
      | _ \<Rightarrow> current_node)"

definition flow_nodes_after :: "dict \<Rightarrow> flow_nodes \<Rightarrow> json \<Rightarrow> call_states \<Rightarrow> flow_nodes" where
  "flow_nodes_after assistant_config fl request_data states =
     (case request_data of
        JObj rd \<Rightarrow>
          (case resolve_current_node fl rd states of
             (states1, Inr (call_id, current_node_name, current_node)) \<Rightarrow>
               (case next_prompt current_node of
                  Inr (JArr xs) \<Rightarrow>
                    (case map_of assistant_config ''forwardingPhoneNumber'' of
                       Some fwd \<Rightarrow>
                         if truthy fwd then
                           graph_insert current_node_name
                             (set_instruction current_node
                                (JArr (xs @ map (\<lambda>c. JStr [c]) transfer_sentence))) fl
                         else fl
                     | None \<Rightarrow> fl)
                | _ \<Rightarrow> fl)
           | _ \<Rightarrow> fl)
      | _ \<Rightarrow> fl)"

section \<open>The provider and the streamed response\<close>

text \<open>
  The provider is \<^verbatim>\<open>client.chat.completions.create\<close>, an external capability: given the
  parameters it raises, or returns a completion, or (when \<^verbatim>\<open>stream\<close> is set) a stream
  of chunks. A chunk is read through \<^verbatim>\<open>chunk.choices[0].delta\<close>; \<open>delta_function_call\<close>
  is \<open>None\<close> when the delta has no attribute \<^verbatim>\<open>function_call\<close> or a false one.
\<close>

datatype function_call =
  FunctionCall (fc_name: "string option") (fc_arguments: "string option")

datatype delta =
  Delta (delta_content: "string option") (delta_function_call: "function_call option")

datatype chunk = Chunk (choices: "delta list")

record provider =
  create_completion :: "openai_params \<Rightarrow> py_error + json"
  create_stream :: "openai_params \<Rightarrow> py_error + chunk list"

text \<open>A frame \<open>Data p\<close> is the string \<^verbatim>\<open>"data: " + json.dumps(p) + "\n\n"\<close> that the
  generator yields.\<close>

datatype frame = Data json

datatype log_level = ERROR | WARNING | INFO

text \<open>What running the generator to its end produces: the frames yielded, the records
  logged, and the exception that ended it, if one did.\<close>

record stream_result =
  frames :: "frame list"
  logged :: "(log_level \<times> string) list"
  raised :: "py_error option"

definition content_payload :: "string \<Rightarrow> json" where
  "content_payload c = JObj [(''choices'', JArr [JObj [(''delta'', JObj [(''content'', JStr c)])]])]"

definition function_call_payload :: "json \<Rightarrow> json" where
  "function_call_payload destination =
     JObj [(''function_call'',
            JObj [(''name'', JStr ''transferCall''),
                  (''arguments'', JObj [(''destination'', destination)])])]"

text \<open>Lines 129 to 145, for one function-call fragment. \<open>loads\<close> is \<^verbatim>\<open>json.loads\<close>, with
  \<open>None\<close> for \<^verbatim>\<open>JSONDecodeError\<close>; it raises \<^verbatim>\<open>TypeError\<close> on \<^verbatim>\<open>None\<close>. Only
  \<^verbatim>\<open>JSONDecodeError\<close> is caught. \<^verbatim>\<open>arguments.get\<close> is looked up before its arguments are
  evaluated.\<close>

definition transfer_fragment ::
  "dict \<Rightarrow> (string \<Rightarrow> json option) \<Rightarrow> function_call \<Rightarrow> stream_result" where
  "transfer_fragment assistant_config loads fc =
     (if fc_name fc = Some ''transferCall'' then
        (case fc_arguments fc of
           None \<Rightarrow> \<lparr> frames = [], logged = [], raised = Some TypeError \<rparr>
         | Some a \<Rightarrow>
             (case loads a of
                None \<Rightarrow> \<lparr> frames = [],
                          logged = [(ERROR, ''Failed to parse transferCall arguments'')],
                          raised = None \<rparr>
              | Some (JObj arguments) \<Rightarrow>
                  (case map_of assistant_config ''forwardingPhoneNumber'' of
                     None \<Rightarrow> \<lparr> frames = [], logged = [], raised = Some KeyError \<rparr>
                   | Some fwd \<Rightarrow>
                       \<lparr> frames = [Data (function_call_payload (dict_get arguments ''destination'' fwd))],
                         logged = [], raised = None \<rparr>)
              | Some _ \<Rightarrow> \<lparr> frames = [], logged = [], raised = Some AttributeError \<rparr>))
      else \<lparr> frames = [], logged = [], raised = None \<rparr>)"

text \<open>The body of the loop (lines 125 to 145) for one chunk.\<close>

definition stream_chunk ::
  "dict \<Rightarrow> (string \<Rightarrow> json option) \<Rightarrow> chunk \<Rightarrow> stream_result" where
  "stream_chunk assistant_config loads ch =
     (case choices ch of
        [] \<Rightarrow> \<lparr> frames = [], logged = [], raised = Some IndexError \<rparr>
      | d # _ \<Rightarrow>
          (let fs = (case delta_content d of None \<Rightarrow> [] | Some c \<Rightarrow> [Data (content_payload c)]) in
           case delta_function_call d of
             None \<Rightarrow> \<lparr> frames = fs, logged = [], raised = None \<rparr>
           | Some fc \<Rightarrow>
               (let r = transfer_fragment assistant_config loads fc in
                r \<lparr> frames := fs @ frames r \<rparr>)))"

text \<open>\<^verbatim>\<open>generate_streaming_response\<close> (lines 123 to 145): the loop over the chunks stops
  at the first exception.\<close>

fun generate_streaming_response ::
  "dict \<Rightarrow> (string \<Rightarrow> json option) \<Rightarrow> chunk list \<Rightarrow> stream_result" where
  "generate_streaming_response assistant_config loads [] =
     \<lparr> frames = [], logged = [], raised = None \<rparr>"
| "generate_streaming_response assistant_config loads (ch # chs) =
     (let r = stream_chunk assistant_config loads ch in
      case raised r of
        Some e \<Rightarrow> r
      | None \<Rightarrow>
          (let r' = generate_streaming_response assistant_config loads chs in
           \<lparr> frames = frames r @ frames r', logged = logged r @ logged r', raised = raised r' \<rparr>))"

text \<open>The HTTP responses of the views: a JSON body with its status, or an event stream
  fed by the generator.\<close>

datatype response =
    JsonResponse nat json
  | EventStream stream_result

text \<open>Lines 187 to 195: the call of the provider and the response built from what it
  returns. The stream is consumed by the generator.\<close>

definition call_provider ::
  "dict \<Rightarrow> (string \<Rightarrow> json option) \<Rightarrow> provider \<Rightarrow> json \<Rightarrow> openai_params
     \<Rightarrow> py_error + response" where
  "call_provider assistant_config loads client streaming params =
     (if truthy streaming then
        (case create_stream client params of
           Inl e \<Rightarrow> Inl e
         | Inr completion_stream \<Rightarrow>
             Inr (EventStream
                    (generate_streaming_response assistant_config loads completion_stream)))
      else
        (case create_completion client params of
           Inl e \<Rightarrow> Inl e
         | Inr completion \<Rightarrow> Inr (JsonResponse 200 completion)))"

text \<open>\<^verbatim>\<open>openai_advanced_custom_llm_route\<close> (lines 148 to 195). An exception leaves the
  view as \<open>Inl\<close>; the call state store is returned as the view leaves it.\<close>

definition openai_advanced_custom_llm_route ::
  "dict \<Rightarrow> flow_nodes \<Rightarrow> (string \<Rightarrow> json option) \<Rightarrow> provider \<Rightarrow> json \<Rightarrow> call_states
     \<Rightarrow> call_states \<times> (py_error + response)" where
  "openai_advanced_custom_llm_route assistant_config fl loads client request_data states =
     (case prepare_dispatch assistant_config fl request_data states of
        (states', Inl e) \<Rightarrow> (states', Inl e)
      | (states', Inr (streaming, params)) \<Rightarrow>
          (states', call_provider assistant_config loads client streaming params))"

section \<open>The configuration route\<close>

text \<open>
  The configuration is the module global \<open>assistant_config\<close>, in memory, and the file
  \<^verbatim>\<open>assistant_config.json\<close>. \<^verbatim>\<open>dict.update\<close> with a dict sets its keys one after the
  other, in its order. The request body is a JSON object here; other bodies are not
  modelled.
\<close>

record config_store =
  in_memory :: dict
  persisted :: dict

definition dict_update :: "dict \<Rightarrow> dict \<Rightarrow> dict" where
  "dict_update d new = fold (\<lambda>(k, v). AList.update k v) new d"

text \<open>\<^verbatim>\<open>config\<close> (lines 198 to 209), method \<^verbatim>\<open>GET\<close> and method \<^verbatim>\<open>POST\<close>.\<close>

definition config_get :: "config_store \<Rightarrow> response" where
  "config_get cs = JsonResponse 200 (JObj (in_memory cs))"

definition config_post :: "dict \<Rightarrow> config_store \<Rightarrow> config_store \<times> response" where
  "config_post new_config cs =
     (if truthy (JObj new_config) then
        (let c = dict_update (in_memory cs) new_config in
         (\<lparr> in_memory = c, persisted = c \<rparr>,
          JsonResponse 200 (JObj [(''status'', JStr ''success''),
                                  (''message'', JStr ''Configuration updated'')])))
      else
        (cs, JsonResponse 400 (JObj [(''status'', JStr ''error''),
                                     (''message'', JStr ''Invalid configuration'')])))"

section \<open>Concrete configurations, graphs and requests\<close>

text \<open>
  \<open>default_config\<close> is the configuration that lines 31 to 43 write when the file is
  missing. \<open>two_step_pathways\<close> is a graph of two nodes, the first leading to the second;
  \<open>empty_name_pathways\<close> has a node whose name is the empty string, and a first node
  whose destination is that name. \<open>default_pathways\<close> is the graph that lines 49 to 61
  write when the file is missing. \<open>no_forwarding_config\<close> has an empty forwarding number,
  \<open>no_key_config\<close> has no forwarding number at all. The nodes of \<open>numbered_pathways\<close>
  are named by numbers; the instruction of the node of \<open>list_instruction_pathways\<close> is
  a list.
  \<open>request_x\<close> is a request body for the call \<^verbatim>\<open>x\<close> with three messages, \<open>request_y\<close> one
  for the call \<^verbatim>\<open>y\<close> without messages. In \<open>ghost_states\<close> the call \<^verbatim>\<open>x\<close> is at a node
  that no graph here has. \<open>null_provider\<close> answers every call with an empty completion or
  an empty stream, \<open>failing_provider\<close> raises on every call, and \<open>no_loads\<close> is a parser
  that rejects every string.
\<close>

definition default_config :: dict where
  "default_config =
     [(''model'',
         JObj [(''provider'', JStr ''openai''),
               (''model'', JStr ''gpt-4o''),
               (''messages'',
                  JArr [JObj [(''role'', JStr ''system''),
                              (''content'',
                                 JStr ''You are an assistant. When the user asks to be transferred, use the transferCall function.'')]])]),
      (''forwardingPhoneNumber'', JStr ''+40761983263'')]"

definition two_step_pathways :: flow_nodes where
  "two_step_pathways =
     [(JStr ''start'', [(''name'', JStr ''start''),
                        (''destinations'', JArr [JObj [(''stepName'', JStr ''end'')]])]),
      (JStr ''end'', [(''name'', JStr ''end''), (''destinations'', JArr [])])]"

definition empty_name_pathways :: flow_nodes where
  "empty_name_pathways =
     [(JStr ''a'', [(''name'', JStr ''a''),
               (''destinations'', JArr [JObj [(''stepName'', JStr [])]])]),
      (JStr [], [(''name'', JStr [])])]"

definition request_x :: dict where
  "request_x =
     [(''call'', JObj [(''id'', JStr ''x'')]),
      (''messages'',
         JArr [JObj [(''role'', JStr ''user''), (''content'', JStr ''hello'')],
               JObj [(''role'', JStr ''assistant''), (''content'', JStr ''hi'')],
               JObj [(''role'', JStr ''user''), (''content'', JStr ''transfer me'')]])]"

definition null_provider :: provider where
  "null_provider = \<lparr> create_completion = (\<lambda>p. Inr JNull), create_stream = (\<lambda>p. Inr []) \<rparr>"

definition failing_provider :: provider where
  "failing_provider =
     \<lparr> create_completion = (\<lambda>p. Inl ProviderError), create_stream = (\<lambda>p. Inl ProviderError) \<rparr>"

definition no_loads :: "string \<Rightarrow> json option" where
  "no_loads s = None"

definition ghost_states :: call_states where
  "ghost_states = [(''x'', JStr ''ghost'')]"

definition default_pathways :: flow_nodes where
  "default_pathways =
     [(JStr ''start'',
         [(''name'', JStr ''start''),
          (''block'',
             JObj [(''instruction'',
                      JStr ''You are a helpful assistant. Help users with their questions and transfer them when requested.'')]),
          (''destinations'', JArr [JObj [(''stepName'', JStr ''start'')]])])]"


definition no_key_config :: dict where
  "no_key_config =
     [(''model'', JObj [(''provider'', JStr ''openai''), (''model'', JStr ''gpt-4o'')])]"

definition numbered_pathways :: flow_nodes where
  "numbered_pathways =
     [(JNum 6, [(''name'', JNum 6), (''destinations'', JArr [JObj [(''stepName'', JNum 7)]])]),
      (JNum 7, [(''name'', JNum 7)])]"

definition list_instruction_pathways :: flow_nodes where
  "list_instruction_pathways =
     [(JStr ''start'',
         [(''name'', JStr ''start''),
          (''block'', JObj [(''instruction'', JArr [JStr ''Hi'']) ])])]"


text \<open>
  \<open>sample_loads\<close> is \<^verbatim>\<open>json.loads\<close> on the strings used below: an empty array, an empty
  object, an object with a destination; any other string used below is no JSON.
  \<open>transfer_chunk a\<close> is a chunk whose delta is a \<^verbatim>\<open>transferCall\<close> function call with the
  arguments \<open>a\<close>, \<open>content_chunk c\<close> one whose delta has the content \<open>c\<close>.
\<close>

definition sample_loads :: "string \<Rightarrow> json option" where
  "sample_loads s =
     (if s = ''[]'' then Some (JArr [])
      else if s = ''{}'' then Some (JObj [])
      else if s = ''{\"destination\": \"+15550100\"}''
        then Some (JObj [(''destination'', JStr ''+15550100'')])
      else None)"

definition transfer_chunk :: "string \<Rightarrow> chunk" where
  "transfer_chunk a = Chunk [Delta None (Some (FunctionCall (Some ''transferCall'') (Some a)))]"

definition content_chunk :: "string \<Rightarrow> chunk" where
  "content_chunk c = Chunk [Delta (Some c) None]"

section \<open>Properties of the call state store\<close>

lemma map_of_states_put: "map_of (states_put states (JStr c) v) c = Some v"
  by (simp add: states_put_def update_conv')

lemma get_current_stored:
  "map_of states c = Some v \<Longrightarrow> truthy v \<Longrightarrow>
   get_current_node_name fl (JStr c) states = (states, Inr v)"
  by (simp add: get_current_node_name_def)

lemma default_node_name_nonempty:
  "fl \<noteq> [] \<Longrightarrow>
   default_node_name fl
     = Inr (if has_node fl (JStr ''start'') then JStr ''start'' else fst (hd fl))"
  by (cases fl) (auto simp: default_node_name_def)

lemma get_current_falsy:
  assumes "states_get states (JStr c) = Inr v" and "\<not> truthy v"
    and "default_node_name fl = Inr d"
  shows "get_current_node_name fl (JStr c) states = (states_put states (JStr c) d, Inr d)"
  using assms by (simp add: get_current_node_name_def)

text \<open>
  Claim C2, as amended. For a call id (a string) that is not in the call state store,
  and a graph with at least one node, \<open>get_current_node_name\<close> returns \<^verbatim>\<open>"start"\<close> when the
  graph has a node of that name and the name of the first node of the graph otherwise;
  the store it leaves maps the call id to that name; a second call with the same call
  id and the same graph returns the same name and leaves the store as it is. When the
  name is true in Python (a non-empty string) the second call returns the stored name
  whatever the graph is, so the default is not computed again; a name that is false
  (the empty string) is computed again on every call.
\<close>

theorem get_current_node_name_unseen:
  assumes "map_of states c = None" and "fl \<noteq> []"
  shows "\<exists>d. d = (if has_node fl (JStr ''start'') then JStr ''start'' else fst (hd fl))
     \<and> get_current_node_name fl (JStr c) states = (states_put states (JStr c) d, Inr d)
     \<and> map_of (states_put states (JStr c) d) c = Some d
     \<and> get_current_node_name fl (JStr c) (states_put states (JStr c) d)
         = (states_put states (JStr c) d, Inr d)
     \<and> (truthy d \<longrightarrow>
          (\<forall>fl'. get_current_node_name fl' (JStr c) (states_put states (JStr c) d)
                 = (states_put states (JStr c) d, Inr d)))
     \<and> (\<not> truthy d \<longrightarrow>
          (\<forall>fl' d'. default_node_name fl' = Inr d' \<longrightarrow>
             get_current_node_name fl' (JStr c) (states_put states (JStr c) d)
               = (states_put states (JStr c) d', Inr d')))"
proof -
  define d where "d = (if has_node fl (JStr ''start'') then JStr ''start'' else fst (hd fl))"
  let ?st = "states_put states (JStr c) d"
  have dn: "default_node_name fl = Inr d"
    using assms(2) by (simp add: default_node_name_nonempty d_def)
  have g: "states_get states (JStr c) = Inr JNull"
    using assms(1) by simp
  have first: "get_current_node_name fl (JStr c) states = (?st, Inr d)"
    using get_current_falsy [OF g _ dn] by simp
  have stored: "map_of ?st c = Some d"
    by (rule map_of_states_put)
  have g': "states_get ?st (JStr c) = Inr d"
    using stored by simp
  have again: "get_current_node_name fl' (JStr c) ?st = (?st, Inr d)"
    if "truthy d" for fl'
    using get_current_stored [OF stored that] .
  have recomputed: "get_current_node_name fl' (JStr c) ?st = (states_put states (JStr c) d', Inr d')"
    if "\<not> truthy d" and "default_node_name fl' = Inr d'" for fl' d'
    using get_current_falsy [OF g' that] by (simp add: states_put_def)
  have same: "get_current_node_name fl (JStr c) ?st = (?st, Inr d)"
  proof (cases "truthy d")
    case True
    then show ?thesis by (rule again)
  next
    case False
    from recomputed [OF False dn] show ?thesis .
  qed
  show ?thesis
  proof (intro exI conjI impI allI)
    show "d = (if has_node fl (JStr ''start'') then JStr ''start'' else fst (hd fl))"
      by (rule d_def)
    show "get_current_node_name fl (JStr c) states = (?st, Inr d)" by (rule first)
    show "map_of ?st c = Some d" by (rule stored)
    show "get_current_node_name fl (JStr c) ?st = (?st, Inr d)" by (rule same)
    show "get_current_node_name fl' (JStr c) ?st = (?st, Inr d)" if "truthy d" for fl'
      using that by (rule again)
    show "get_current_node_name fl' (JStr c) ?st = (states_put states (JStr c) d', Inr d')"
      if "\<not> truthy d" and "default_node_name fl' = Inr d'" for fl' d'
      using that by (rule recomputed)
  qed
qed

theorem get_current_node_name_unseen_witness:
  "get_current_node_name [(JStr ''intro'', []), (JStr ''start'', [])] (JStr ''abc'') []
     = ([(''abc'', JStr ''start'')], Inr (JStr ''start''))
   \<and> get_current_node_name [(JStr ''intro'', []), (JStr ''end'', [])] (JStr ''abc'') []
     = ([(''abc'', JStr ''intro'')], Inr (JStr ''intro''))
   \<and> get_current_node_name [(JStr ''intro'', []), (JStr ''end'', [])] (JStr ''abc'')
        [(''abc'', JStr ''start'')]
     = ([(''abc'', JStr ''start'')], Inr (JStr ''start''))"
  using get_current_node_name_unseen
      [of "[]" "''abc''" "[(JStr ''intro'', []), (JStr ''start'', [])]"]
    get_current_node_name_unseen
      [of "[]" "''abc''" "[(JStr ''intro'', []), (JStr ''end'', [])]"]
  by (simp add: has_node_def key_eq_def states_put_def)

text \<open>
  Claim C2 as stated fails when the default node has the empty string as its name: the
  first call stores \<^verbatim>\<open>""\<close> for the call, and the next call with the same call id does
  not return the stored name but computes the default again, here the node \<^verbatim>\<open>z\<close> of the
  graph in force at that call.
\<close>

theorem empty_default_name_recomputed:
  "get_current_node_name [(JStr [], [])] (JStr ''abc'') []
     = ([(''abc'', JStr [])], Inr (JStr []))
   \<and> get_current_node_name [(JStr ''z'', [])] (JStr ''abc'') [(''abc'', JStr [])]
     = ([(''abc'', JStr ''z'')], Inr (JStr ''z''))"
  by (simp add: get_current_node_name_def default_node_name_def has_node_def key_eq_def
        states_put_def)

text \<open>
  Claim C9. For a call id (a string) and a graph with at least one node, a stored value
  that is false in Python (the empty string, and also \<^verbatim>\<open>null\<close>, \<^verbatim>\<open>false\<close>, \<^verbatim>\<open>0\<close>, an empty
  list or object) is treated as no entry: \<open>get_current_node_name\<close> replaces it in the
  store by the default node and returns the default node.
\<close>

theorem get_current_node_name_falsy_stored:
  assumes "map_of states c = Some v" and "\<not> truthy v" and "fl \<noteq> []"
  shows "get_current_node_name fl (JStr c) states
     = (states_put states (JStr c)
          (if has_node fl (JStr ''start'') then JStr ''start'' else fst (hd fl)),
        Inr (if has_node fl (JStr ''start'') then JStr ''start'' else fst (hd fl)))"
proof -
  have "states_get states (JStr c) = Inr v"
    using assms(1) by simp
  from get_current_falsy [OF this assms(2) default_node_name_nonempty [OF assms(3)]]
  show ?thesis .
qed

theorem get_current_node_name_falsy_stored_witness:
  "get_current_node_name [(JStr ''intro'', []), (JStr ''end'', [])] (JStr ''abc'')
     [(''abc'', JStr [])]
     = ([(''abc'', JStr ''intro'')], Inr (JStr ''intro''))"
  using get_current_node_name_falsy_stored
    [of "[(''abc'', JStr [])]" "''abc''" "JStr []" "[(JStr ''intro'', []), (JStr ''end'', [])]"]
  by (simp add: has_node_def key_eq_def states_put_def)

section \<open>Properties of the pathway graph\<close>

text \<open>The default pathway file loads to \<open>default_pathways\<close>; a later node with the name
  of an earlier one replaces it in its place; a name can be a number.\<close>

lemma load_pathways_default:
  "load_pathways
     (JArr [JObj [(''name'', JStr ''start''),
                  (''block'',
                     JObj [(''instruction'',
                              JStr ''You are a helpful assistant. Help users with their questions and transfer them when requested.'')]),
                  (''destinations'', JArr [JObj [(''stepName'', JStr ''start'')]])]])
     = Inr default_pathways"
  by (simp add: load_pathways_def default_pathways_def)

lemma load_pathways_numbered:
  "load_pathways
     (JArr [JObj [(''name'', JNum 6), (''destinations'', JArr [JObj [(''stepName'', JNum 7)]])],
            JObj [(''name'', JNum 7)]])
     = Inr numbered_pathways"
  by (simp add: load_pathways_def numbered_pathways_def key_eq_def)

lemma load_pathways_same_name:
  "load_pathways
     (JArr [JObj [(''name'', JStr ''a''), (''n'', JNum 1)], JObj [(''name'', JStr ''b'')],
            JObj [(''name'', JStr ''a''), (''n'', JNum 2)]])
     = Inr [(JStr ''a'', [(''name'', JStr ''a''), (''n'', JNum 2)]),
            (JStr ''b'', [(''name'', JStr ''b'')])]"
  by (simp add: load_pathways_def key_eq_def)

lemma load_pathways_without_name:
  "load_pathways (JArr [JObj [(''block'', JObj [])]]) = Inl KeyError"
  by (simp add: load_pathways_def)

text \<open>The graph after a request is the graph before it, unless the instruction of the
  current node is a list.\<close>

lemma flow_nodes_after_unchanged:
  assumes "resolve_current_node fl rd st = (st1, Inr (cid, cur, node))"
    and "\<forall>xs. next_prompt node \<noteq> Inr (JArr xs)"
  shows "flow_nodes_after cfg fl (JObj rd) st = fl"
  using assms
  by (auto simp: flow_nodes_after_def split: sum.splits json.splits option.splits)

lemma flow_nodes_after_not_resolved:
  assumes "resolve_current_node fl rd st = (st1, Inl e)"
  shows "flow_nodes_after cfg fl (JObj rd) st = fl"
  using assms by (simp add: flow_nodes_after_def)

lemma flow_nodes_after_list_instruction:
  "flow_nodes_after default_config list_instruction_pathways (JObj request_x) []
     = [(JStr ''start'',
           [(''name'', JStr ''start''),
            (''block'',
               JObj [(''instruction'',
                        JArr (JStr ''Hi'' # map (\<lambda>c. JStr [c]) transfer_sentence))])])]
   \<and> length (JStr ''Hi'' # map (\<lambda>c. JStr [c]) transfer_sentence) = 89"
  by (simp add: flow_nodes_after_def resolve_current_node_def get_current_node_name_def
        default_node_name_def has_node_def key_eq_def flow_lookup_def states_put_def
        next_prompt_def dict_get_def set_instruction_def list_instruction_pathways_def
        request_x_def default_config_def transfer_sentence_def)

lemma flow_nodes_after_second_request:
  "flow_nodes_after default_config
     (flow_nodes_after default_config list_instruction_pathways (JObj request_x) [])
     (JObj request_x)
     (fst (prepare_dispatch default_config list_instruction_pathways (JObj request_x) []))
     = [(JStr ''start'',
           [(''name'', JStr ''start''),
            (''block'',
               JObj [(''instruction'',
                        JArr (JStr ''Hi'' # map (\<lambda>c. JStr [c]) transfer_sentence
                              @ map (\<lambda>c. JStr [c]) transfer_sentence))])])]"
  by (simp add: flow_nodes_after_def prepare_dispatch_def provider_request_def
        system_message_def messages_of_def build_openai_params_def next_node_def
        get_available_functions_def set_current_node_name_def system_entry_def Let_def
        resolve_current_node_def get_current_node_name_def
        default_node_name_def has_node_def key_eq_def flow_lookup_def states_put_def
        next_prompt_def dict_get_def set_instruction_def list_instruction_pathways_def
        request_x_def default_config_def)

section \<open>Properties of the dispatcher\<close>

lemmas dispatch_defs =
  openai_advanced_custom_llm_route_def call_provider_def prepare_dispatch_def
  resolve_current_node_def provider_request_def next_prompt_def system_message_def
  messages_of_def build_openai_params_def next_node_def get_available_functions_def
  get_current_node_name_def set_current_node_name_def default_node_name_def
  states_put_def dict_get_def has_node_def key_eq_def flow_lookup_def flow_member_def
  system_entry_def Let_def

lemma get_current_node_name_result:
  assumes "get_current_node_name fl cid st = (st1, Inr cur)"
  shows "hashable cid \<and> map_of st1 (dump_key cid) = Some cur"
proof (cases "states_get st cid")
  case (Inl e)
  with assms show ?thesis by (simp add: get_current_node_name_def)
next
  case (Inr v)
  then have h: "hashable cid" by (cases cid) auto
  show ?thesis
  proof (cases "truthy v")
    case True
    with Inr assms have eq: "st1 = st" "cur = v"
      by (auto simp: get_current_node_name_def)
    from Inr True have "map_of st (dump_key cid) = Some v"
      by (cases cid) (auto split: option.splits)
    with eq h show ?thesis by simp
  next
    case False
    with Inr assms have "st1 = states_put st cid cur"
      by (auto simp: get_current_node_name_def split: sum.splits)
    with h show ?thesis by (simp add: states_put_def update_conv')
  qed
qed

lemma resolve_current_node_result:
  assumes "resolve_current_node fl rd st = (st1, Inr (cid, cur, node))"
  shows "hashable cid \<and> map_of st1 (dump_key cid) = Some cur \<and> flow_lookup fl cur = Inr node"
proof -
  from assms obtain call where
    "get_current_node_name fl cid st = (st1, Inr cur)" and fl: "flow_lookup fl cur = Inr node"
    by (auto simp: resolve_current_node_def split: option.splits sum.splits prod.splits)
  from get_current_node_name_result [OF this(1)] fl show ?thesis by simp
qed

lemma resolve_current_node_call:
  "map_of rd' ''call'' = map_of rd ''call'' \<Longrightarrow>
   resolve_current_node fl rd' st = resolve_current_node fl rd st"
  by (simp add: resolve_current_node_def)

lemma flow_member_has_node:
  "flow_member fl nn = Inr b \<Longrightarrow> b = has_node fl nn"
  by (simp add: flow_member_def split: if_splits)

lemma next_node_first:
  assumes "dict_get node ''destinations'' (JArr []) = JArr (d # ds)"
    and "next_node fl node = Inr r"
  shows "\<exists>nn. py_get d ''stepName'' JNull = Inr nn
            \<and> r = (if truthy nn \<and> has_node fl nn then Some nn else None)"
proof -
  from assms obtain nn where nn: "py_get d ''stepName'' JNull = Inr nn"
    by (auto simp: next_node_def split: sum.splits)
  show ?thesis
  proof (cases "truthy nn")
    case True
    with assms nn obtain b where "flow_member fl nn = Inr b" "r = (if b then Some nn else None)"
      by (auto simp: next_node_def split: sum.splits)
    with flow_member_has_node [OF this(1)] True nn show ?thesis by auto
  next
    case False
    with assms nn show ?thesis by (auto simp: next_node_def)
  qed
qed

lemma prepare_dispatch_ok:
  assumes "resolve_current_node fl rd st = (st1, Inr (cid, cur, node))"
    and "prepare_dispatch cfg fl (JObj rd) st = (st', Inr out)"
  shows "\<exists>params r. provider_request cfg node rd (dict_get rd ''stream'' (JBool False)) = Inr params
           \<and> out = (dict_get rd ''stream'' (JBool False), params)
           \<and> next_node fl node = Inr r
           \<and> st' = (case r of None \<Rightarrow> st1 | Some nn \<Rightarrow> states_put st1 cid nn)"
proof -
  from resolve_current_node_result [OF assms(1)] have h: "hashable cid" by simp
  show ?thesis
    using assms h
    by (auto simp: prepare_dispatch_def set_current_node_name_def Let_def
             split: sum.splits option.splits)
qed

lemma route_dispatched:
  "prepare_dispatch cfg fl req st = (st', Inr (s, p)) \<Longrightarrow>
   openai_advanced_custom_llm_route cfg fl loads client req st
     = (st', call_provider cfg loads client s p)"
  by (simp add: openai_advanced_custom_llm_route_def)

lemma route_not_dispatched:
  "prepare_dispatch cfg fl req st = (st', Inl e) \<Longrightarrow>
   openai_advanced_custom_llm_route cfg fl loads client req st = (st', Inl e)"
  by (simp add: openai_advanced_custom_llm_route_def)

text \<open>
  Claim C1, as amended. For a dispatched request (the handler reaches the provider call)
  whose current node has a destination list with a first element, the node stored for
  the call after the dispatch is the \<^verbatim>\<open>stepName\<close> of that element when it is true in
  Python (not empty) and names a node of the graph; otherwise (no \<^verbatim>\<open>stepName\<close>, an
  empty one, or a name that is not in the graph) the store is the one
  \<open>get_current_node_name\<close> left and holds the current node. The store after the
  request is the same for every provider and every parser, and the same for every
  dispatched request body with the same \<^verbatim>\<open>call\<close> entry and every configuration: the
  messages and the provider's output play no part.
\<close>

theorem dispatch_advances_to_first_destination:
  assumes res: "resolve_current_node fl rd st = (st1, Inr (cid, cur, node))"
    and prep: "prepare_dispatch cfg fl (JObj rd) st = (st', Inr out)"
    and dest: "dict_get node ''destinations'' (JArr []) = JArr (d # ds)"
  shows "\<exists>nn. py_get d ''stepName'' JNull = Inr nn
     \<and> st' = (if truthy nn \<and> has_node fl nn then states_put st1 cid nn else st1)
     \<and> map_of st' (dump_key cid) = Some (if truthy nn \<and> has_node fl nn then nn else cur)
     \<and> (\<forall>loads client. fst (openai_advanced_custom_llm_route cfg fl loads client (JObj rd) st) = st')
     \<and> (\<forall>cfg' rd' st'' out'. map_of rd' ''call'' = map_of rd ''call''
           \<longrightarrow> prepare_dispatch cfg' fl (JObj rd') st = (st'', Inr out') \<longrightarrow> st'' = st')"
proof -
  from prepare_dispatch_ok [OF res prep] obtain params r where
    r: "next_node fl node = Inr r" and
    st': "st' = (case r of None \<Rightarrow> st1 | Some nn \<Rightarrow> states_put st1 cid nn)"
    by blast
  from next_node_first [OF dest r] obtain nn where
    nn: "py_get d ''stepName'' JNull = Inr nn" and
    r_eq: "r = (if truthy nn \<and> has_node fl nn then Some nn else None)"
    by blast
  from resolve_current_node_result [OF res] have cur: "map_of st1 (dump_key cid) = Some cur"
    by simp
  have a: "st' = (if truthy nn \<and> has_node fl nn then states_put st1 cid nn else st1)"
    using st' r_eq by simp
  have b: "map_of st' (dump_key cid) = Some (if truthy nn \<and> has_node fl nn then nn else cur)"
    using a cur by (simp add: states_put_def update_conv')
  have c: "fst (openai_advanced_custom_llm_route cfg fl loads client (JObj rd) st) = st'"
    for loads client
    using prep by (cases out) (simp add: route_dispatched)
  have e: "st'' = st'"
    if "map_of rd' ''call'' = map_of rd ''call''"
      and "prepare_dispatch cfg' fl (JObj rd') st = (st'', Inr out')"
    for cfg' rd' st'' out'
  proof -
    have "resolve_current_node fl rd' st = (st1, Inr (cid, cur, node))"
      using resolve_current_node_call [OF that(1), of fl st] res by simp
    from prepare_dispatch_ok [OF this that(2)] obtain r' where
      "next_node fl node = Inr r'"
      "st'' = (case r' of None \<Rightarrow> st1 | Some nn \<Rightarrow> states_put st1 cid nn)"
      by blast
    with r st' show ?thesis by simp
  qed
  show ?thesis
  proof (intro exI conjI allI impI)
    show "py_get d ''stepName'' JNull = Inr nn" by (rule nn)
    show "st' = (if truthy nn \<and> has_node fl nn then states_put st1 cid nn else st1)" by (rule a)
    show "map_of st' (dump_key cid) = Some (if truthy nn \<and> has_node fl nn then nn else cur)" by (rule b)
    show "fst (openai_advanced_custom_llm_route cfg fl loads client (JObj rd) st) = st'"
      for loads client by (rule c)
    show "st'' = st'"
      if "map_of rd' ''call'' = map_of rd ''call''"
        and "prepare_dispatch cfg' fl (JObj rd') st = (st'', Inr out')"
      for cfg' rd' st'' out'
      using that by (rule e)
  qed
qed

theorem dispatch_advances_to_first_destination_witness:
  "fst (prepare_dispatch default_config two_step_pathways (JObj request_x) []) = [(''x'', JStr ''end'')]
   \<and> map_of (fst (prepare_dispatch default_config two_step_pathways (JObj request_x) [])) ''x''
       = Some (JStr ''end'')"
proof -
  let ?node = "[(''name'', JStr ''start''),
                (''destinations'', JArr [JObj [(''stepName'', JStr ''end'')]])]"
  obtain st' out where p: "prepare_dispatch default_config two_step_pathways (JObj request_x) [] = (st', out)"
    by (cases "prepare_dispatch default_config two_step_pathways (JObj request_x) []")
  have r: "resolve_current_node two_step_pathways request_x []
     = ([(''x'', JStr ''start'')], Inr (JStr ''x'', JStr ''start'', ?node))"
    by (simp add: dispatch_defs two_step_pathways_def request_x_def)
  have "\<exists>o'. out = Inr o'"
    using p by (auto simp add: dispatch_defs two_step_pathways_def request_x_def default_config_def)
  then obtain o' where "prepare_dispatch default_config two_step_pathways (JObj request_x) [] = (st', Inr o')"
    using p by auto
  from dispatch_advances_to_first_destination [OF r this, of "JObj [(''stepName'', JStr ''end'')]" "[]"] p
  show ?thesis
    by (auto simp: dict_get_def has_node_def key_eq_def two_step_pathways_def states_put_def)
qed

text \<open>A \<^verbatim>\<open>stepName\<close> that is a number advances the call when a node has that number as
  its name.\<close>

lemma numbered_step_name_advances:
  "fst (prepare_dispatch default_config numbered_pathways (JObj request_x) [])
     = [(''x'', JNum 7)]"
  by (simp add: dispatch_defs numbered_pathways_def request_x_def default_config_def)

text \<open>
  Claim C1 as stated fails on \<open>empty_name_pathways\<close>: the first destination of the
  current node \<^verbatim>\<open>a\<close> has the \<^verbatim>\<open>stepName\<close> \<^verbatim>\<open>""\<close>, a node of that name is in the graph,
  the request is dispatched, and the node stored for the call is still \<^verbatim>\<open>a\<close>.
\<close>

theorem empty_step_name_not_advanced:
  "openai_advanced_custom_llm_route default_config empty_name_pathways no_loads null_provider
     (JObj request_x) []
     = ([(''x'', JStr ''a'')], Inr (JsonResponse 200 JNull))
   \<and> has_node empty_name_pathways (JStr [])"
  by (simp add: dispatch_defs empty_name_pathways_def request_x_def default_config_def null_provider_def)

text \<open>
  Claim C3. For a dispatched request with a valid next destination, the store the
  handler leaves holds the next node for the call, whatever the provider does: the
  result of the handler is that store together with the outcome of the provider call,
  and when the provider call raises, the handler raises with the store already
  advanced.
\<close>

theorem advance_precedes_provider_call:
  assumes res: "resolve_current_node fl rd st = (st1, Inr (cid, cur, node))"
    and prep: "prepare_dispatch cfg fl (JObj rd) st = (st', Inr (s, p))"
    and nxt: "next_node fl node = Inr (Some nn)"
  shows "st' = states_put st1 cid nn
     \<and> map_of st' (dump_key cid) = Some nn
     \<and> (\<forall>loads client.
           openai_advanced_custom_llm_route cfg fl loads client (JObj rd) st
             = (st', call_provider cfg loads client s p))
     \<and> (\<forall>loads client e. call_provider cfg loads client s p = Inl e \<longrightarrow>
           openai_advanced_custom_llm_route cfg fl loads client (JObj rd) st
             = (states_put st1 cid nn, Inl e))"
proof -
  from prepare_dispatch_ok [OF res prep] nxt have a: "st' = states_put st1 cid nn"
    by auto
  have b: "map_of st' (dump_key cid) = Some nn"
    using a by (simp add: states_put_def update_conv')
  have c: "openai_advanced_custom_llm_route cfg fl loads client (JObj rd) st
             = (st', call_provider cfg loads client s p)" for loads client
    by (rule route_dispatched [OF prep])
  from a b c show ?thesis by simp
qed

theorem advance_precedes_provider_call_witness:
  "openai_advanced_custom_llm_route default_config two_step_pathways no_loads failing_provider
     (JObj request_x) [] = ([(''x'', JStr ''end'')], Inl ProviderError)"
proof -
  let ?node = "[(''name'', JStr ''start''),
                (''destinations'', JArr [JObj [(''stepName'', JStr ''end'')]])]"
  obtain st' out where p: "prepare_dispatch default_config two_step_pathways (JObj request_x) [] = (st', out)"
    by (cases "prepare_dispatch default_config two_step_pathways (JObj request_x) []")
  have r: "resolve_current_node two_step_pathways request_x []
     = ([(''x'', JStr ''start'')], Inr (JStr ''x'', JStr ''start'', ?node))"
    by (simp add: dispatch_defs two_step_pathways_def request_x_def)
  have "\<exists>s q. out = Inr (s, q) \<and> \<not> truthy s"
    using p by (auto simp add: dispatch_defs two_step_pathways_def request_x_def default_config_def)
  then obtain s q where q: "prepare_dispatch default_config two_step_pathways (JObj request_x) [] = (st', Inr (s, q))"
    and s: "\<not> truthy s"
    using p by auto
  have n: "next_node two_step_pathways ?node = Inr (Some (JStr ''end''))"
    by (simp add: dispatch_defs two_step_pathways_def)
  have f: "call_provider default_config no_loads failing_provider s q = Inl ProviderError"
    using s by (simp add: call_provider_def failing_provider_def)
  from advance_precedes_provider_call [OF r q n] f show ?thesis
    by (simp add: states_put_def)
qed

lemma not_has_node_lookup:
  "\<not> has_node fl k \<Longrightarrow> hashable k \<Longrightarrow> flow_lookup fl k = Inl KeyError"
  by (simp add: has_node_def flow_lookup_def)

text \<open>
  Claim C4, as amended. When the call id of the request is a string whose stored node
  name is a non-empty string that is not in the graph, the handler raises \<^verbatim>\<open>KeyError\<close>
  at the lookup of line 154 and nothing catches it: the view returns no response of
  its own (no status 400 with a JSON body), the provider is not called and the call
  state store is left as it was.
\<close>

theorem unknown_current_node_raises_KeyError:
  assumes call: "map_of rd ''call'' = Some call"
    and cid: "py_subscript call ''id'' = Inr (JStr c)"
    and stored: "map_of st c = Some (JStr n)"
    and n: "n \<noteq> []"
    and unknown: "\<not> has_node fl (JStr n)"
  shows "openai_advanced_custom_llm_route cfg fl loads client (JObj rd) st = (st, Inl KeyError)"
proof -
  have g: "get_current_node_name fl (JStr c) st = (st, Inr (JStr n))"
    using get_current_stored [OF stored] n by simp
  have l: "flow_lookup fl (JStr n) = Inl KeyError"
    using not_has_node_lookup [OF unknown] by simp
  have "resolve_current_node fl rd st = (st, Inl KeyError)"
    using call cid g l by (simp add: resolve_current_node_def)
  then have "prepare_dispatch cfg fl (JObj rd) st = (st, Inl KeyError)"
    by (simp add: prepare_dispatch_def)
  then show ?thesis by (rule route_not_dispatched)
qed

theorem unknown_current_node_raises_KeyError_witness:
  "openai_advanced_custom_llm_route default_config two_step_pathways no_loads failing_provider
     (JObj request_x) ghost_states = (ghost_states, Inl KeyError)"
  using unknown_current_node_raises_KeyError [of request_x "JObj [(''id'', JStr ''x'')]" "''x''" ghost_states "''ghost''" two_step_pathways]
  by (simp add: request_x_def ghost_states_def two_step_pathways_def has_node_def key_eq_def)

text \<open>
  Claim C4 as stated fails: with the default graph and the call \<^verbatim>\<open>x\<close> stored at the
  unknown node \<^verbatim>\<open>ghost\<close>, the view ends with the exception \<^verbatim>\<open>KeyError\<close>, not with a
  response of status 400.
\<close>

theorem unknown_current_node_not_bad_request:
  "openai_advanced_custom_llm_route default_config default_pathways no_loads null_provider
     (JObj request_x) ghost_states = (ghost_states, Inl KeyError)"
  by (simp add: dispatch_defs default_pathways_def request_x_def ghost_states_def)

lemma build_openai_params_result:
  assumes "build_openai_params cfg msgs s = Inr p"
  shows "messages p = msgs \<and> stream p = s \<and> max_tokens p = 1000
     \<and> functions_arg p = (if get_available_functions cfg = [] then None
                           else Some (get_available_functions cfg))
     \<and> function_call_arg p = (if get_available_functions cfg = [] then None else Some ''auto'')"
  using assms
  by (auto simp: build_openai_params_def Let_def split: option.splits sum.splits)

lemma provider_request_result:
  assumes "provider_request cfg node rd s = Inr p"
  shows "\<exists>prompt sm msgs. next_prompt node = Inr prompt \<and> system_message cfg prompt = Inr sm
     \<and> messages_of rd sm = Inr msgs \<and> build_openai_params cfg msgs s = Inr p"
  using assms by (auto simp: provider_request_def split: sum.splits)

lemma system_message_result:
  assumes "system_message cfg prompt = Inr sm"
  shows "\<exists>fwd. map_of cfg ''forwardingPhoneNumber'' = Some fwd \<and> (\<not> truthy fwd \<longrightarrow> sm = prompt)"
  using assms by (auto simp: system_message_def split: option.splits if_splits)

lemma get_available_functions_eq:
  "get_available_functions cfg =
     (case map_of cfg ''forwardingPhoneNumber'' of
        None \<Rightarrow> []
      | Some fwd \<Rightarrow> if truthy fwd then [transferCall_descriptor] else [])"
  by (simp add: get_available_functions_def dict_get_def split: option.splits)


lemma resolve_two_step_x:
  "resolve_current_node two_step_pathways request_x []
     = ([(''x'', JStr ''start'')], Inr (JStr ''x'', JStr ''start'', snd (hd two_step_pathways)))"
  by (simp add: dispatch_defs two_step_pathways_def request_x_def)

text \<open>When the configuration holds a forwarding number, empty or not, the function
  list and the system message of a dispatched request follow it.\<close>

lemma functions_follow_forwarding_number:
  assumes res: "resolve_current_node fl rd st = (st1, Inr (cid, cur, node))"
    and prep: "prepare_dispatch cfg fl (JObj rd) st = (st', Inr (s, p))"
  shows "(functions_arg p = Some [transferCall_descriptor]
            \<longleftrightarrow> truthy (dict_get cfg ''forwardingPhoneNumber'' JNull))
     \<and> (\<not> truthy (dict_get cfg ''forwardingPhoneNumber'' JNull) \<longrightarrow>
          get_available_functions cfg = [] \<and> functions_arg p = None \<and> function_call_arg p = None
          \<and> (\<exists>prompt. next_prompt node = Inr prompt
                \<and> hd (messages p) = JObj [(''role'', JStr ''system''), (''content'', prompt)]))"
proof -
  from prepare_dispatch_ok [OF res prep] have "provider_request cfg node rd s = Inr p"
    by auto
  from provider_request_result [OF this] obtain prompt sm msgs where
    pr: "next_prompt node = Inr prompt" and sm: "system_message cfg prompt = Inr sm"
    and ms: "messages_of rd sm = Inr msgs" and bp: "build_openai_params cfg msgs s = Inr p"
    by blast
  from system_message_result [OF sm] obtain fwd where
    fwd: "map_of cfg ''forwardingPhoneNumber'' = Some fwd" and same: "\<not> truthy fwd \<longrightarrow> sm = prompt"
    by blast
  have dg: "dict_get cfg ''forwardingPhoneNumber'' JNull = fwd"
    using fwd by (simp add: dict_get_def)
  have gaf: "get_available_functions cfg = (if truthy fwd then [transferCall_descriptor] else [])"
    using fwd by (simp add: get_available_functions_eq)
  have hdm: "hd msgs = JObj [(''role'', JStr ''system''), (''content'', sm)]"
    using ms
    by (auto simp: messages_of_def system_entry_def split: option.splits sum.splits if_splits)
  from build_openai_params_result [OF bp] gaf dg pr same hdm
  show ?thesis by auto
qed

text \<open>
  Claim C6 at a configuration without the key \<^verbatim>\<open>forwardingPhoneNumber\<close>:
  \<open>get_available_functions\<close> reads the key with \<^verbatim>\<open>.get\<close> (line 105) and returns the empty
  list, but the handler subscripts the configuration (line 160) and raises \<^verbatim>\<open>KeyError\<close>:
  no system message is built and the provider is not called. With the default
  configuration the function list is the one descriptor of \<^verbatim>\<open>transferCall\<close>.
\<close>

theorem absent_forwarding_number_raises:
  "get_available_functions no_key_config = []
   \<and> openai_advanced_custom_llm_route no_key_config default_pathways no_loads null_provider
        (JObj request_x) []
       = ([(''x'', JStr ''start'')], Inl KeyError)
   \<and> get_available_functions default_config
       = [JObj [(''name'', JStr ''transferCall''),
                (''description'', JStr ''Transfer the call to another phone number''),
                (''parameters'',
                   JObj [(''type'', JStr ''object''),
                         (''properties'',
                            JObj [(''destination'',
                                     JObj [(''type'', JStr ''string''),
                                           (''description'',
                                              JStr ''The destination phone number to transfer the call to'')])]),
                         (''required'', JArr [JStr ''destination''])])]]"
  by (simp add: dispatch_defs transferCall_descriptor_def no_key_config_def default_config_def
        default_pathways_def request_x_def)





text \<open>For a node without a \<^verbatim>\<open>block\<close> field, or whose block is an object without an
  \<^verbatim>\<open>instruction\<close> field, the prompt is the literal of line 157, and with a forwarding
  number in the configuration, empty or not, the system message is that literal, with
  the transfer sentence appended when the number is set.\<close>

lemma missing_instruction_prompt:
  assumes blk: "map_of node ''block'' = None
       \<or> (\<exists>b. map_of node ''block'' = Some (JObj b) \<and> map_of b ''instruction'' = None)"
  shows "next_prompt node = Inr (JStr ''No instructions available.'')"
  using blk by (auto simp: next_prompt_def dict_get_def no_instructions_def)

lemma missing_instruction_system_message:
  assumes fwd: "map_of cfg ''forwardingPhoneNumber'' = Some fwd"
  shows "system_message cfg (JStr ''No instructions available.'')
     = Inr (JStr (if truthy fwd
                  then ''No instructions available.''
                       @ CHR 0x0A # ''If the user requests a transfer, you can transfer them using the transferCall function.''
                  else ''No instructions available.''))"
  using fwd by (simp add: system_message_def transfer_sentence_def)

text \<open>
  Claim C10 at a configuration without the key \<^verbatim>\<open>forwardingPhoneNumber\<close>: for the node
  \<^verbatim>\<open>start\<close> of \<open>two_step_pathways\<close>, which has no \<^verbatim>\<open>block\<close>, lines 156 and 157 give the
  literal \<^verbatim>\<open>No instructions available.\<close>, and line 160 then raises \<^verbatim>\<open>KeyError\<close>: the
  dispatcher fails, with no system message and no provider call. With the default
  configuration the same request is dispatched and its system message is the literal
  with the transfer sentence appended.
\<close>

theorem missing_instruction_absent_forwarding_raises:
  "next_prompt (snd (hd two_step_pathways)) = Inr (JStr ''No instructions available.'')
   \<and> next_prompt [(''name'', JStr ''end''), (''block'', JObj [(''title'', JStr ''bye'')])]
       = Inr (JStr ''No instructions available.'')
   \<and> openai_advanced_custom_llm_route no_key_config two_step_pathways no_loads null_provider
        (JObj request_x) []
       = ([(''x'', JStr ''start'')], Inl KeyError)
   \<and> hd (messages (snd (projr (snd (prepare_dispatch default_config two_step_pathways
        (JObj request_x) [])))))
       = JObj [(''role'', JStr ''system''),
               (''content'',
                  JStr (''No instructions available.''
                        @ CHR 0x0A # ''If the user requests a transfer, you can transfer them using the transferCall function.''))]"
  by (simp add: dispatch_defs no_instructions_def transfer_sentence_def no_key_config_def
        default_config_def two_step_pathways_def request_x_def)

section \<open>Properties of the streamed response\<close>

lemmas stream_defs =
  stream_chunk_def transfer_fragment_def transfer_chunk_def content_chunk_def
  sample_loads_def dict_get_def Let_def

text \<open>What the generator does with a \<^verbatim>\<open>transferCall\<close> fragment: one frame when the
  arguments are a JSON object, a log record and no frame when they are no JSON, and
  the exception \<^verbatim>\<open>AttributeError\<close>, which nothing catches, when they are JSON of another
  kind. The loop goes on after a chunk that raised nothing and ends at one that raised.\<close>

lemma transfer_fragment_object:
  assumes "loads a = Some (JObj args)" and "map_of cfg ''forwardingPhoneNumber'' = Some fwd"
  shows "transfer_fragment cfg loads (FunctionCall (Some ''transferCall'') (Some a))
     = \<lparr> frames = [Data (function_call_payload (dict_get args ''destination'' fwd))],
         logged = [], raised = None \<rparr>"
  using assms by (simp add: transfer_fragment_def)

lemma transfer_fragment_unparseable:
  assumes "loads a = None"
  shows "transfer_fragment cfg loads (FunctionCall (Some ''transferCall'') (Some a))
     = \<lparr> frames = [], logged = [(ERROR, ''Failed to parse transferCall arguments'')],
         raised = None \<rparr>"
  using assms by (simp add: transfer_fragment_def)

lemma transfer_fragment_not_object:
  assumes "loads a = Some v" and "\<forall>args. v \<noteq> JObj args"
  shows "transfer_fragment cfg loads (FunctionCall (Some ''transferCall'') (Some a))
     = \<lparr> frames = [], logged = [], raised = Some AttributeError \<rparr>"
  using assms by (cases v) (simp_all add: transfer_fragment_def)

lemma generate_streaming_response_continues:
  assumes "raised (stream_chunk cfg loads ch) = None"
  shows "generate_streaming_response cfg loads (ch # chs)
     = \<lparr> frames = frames (stream_chunk cfg loads ch) @ frames (generate_streaming_response cfg loads chs),
         logged = logged (stream_chunk cfg loads ch) @ logged (generate_streaming_response cfg loads chs),
         raised = raised (generate_streaming_response cfg loads chs) \<rparr>"
  using assms by (simp add: Let_def)

lemma generate_streaming_response_stops:
  assumes "raised (stream_chunk cfg loads ch) = Some e"
  shows "generate_streaming_response cfg loads (ch # chs) = stream_chunk cfg loads ch"
  using assms by (simp add: Let_def)

lemma stream_of_object_and_unparseable_arguments:
  "generate_streaming_response default_config sample_loads
     [transfer_chunk ''{\"destination\": \"+15550100\"}'', transfer_chunk ''{}'',
      transfer_chunk ''{\"destination'', content_chunk ''Hello'']
     = \<lparr> frames = [Data (function_call_payload (JStr ''+15550100'')),
                   Data (function_call_payload (JStr ''+40761983263'')),
                   Data (content_payload ''Hello'')],
         logged = [(ERROR, ''Failed to parse transferCall arguments'')],
         raised = None \<rparr>"
  by (simp add: stream_defs default_config_def)

text \<open>
  Claim C5 at a fragment whose arguments are the JSON text \<^verbatim>\<open>[]\<close>: the arguments parse,
  and the stream has no \<^verbatim>\<open>function_call\<close> frame and ends with \<^verbatim>\<open>AttributeError\<close>; the
  content chunk that follows is never sent.
\<close>

theorem non_object_arguments_end_stream:
  "generate_streaming_response default_config sample_loads
     [transfer_chunk ''[]'', content_chunk ''Hello'']
     = \<lparr> frames = [], logged = [], raised = Some AttributeError \<rparr>"
  by (simp add: stream_defs)

section \<open>Properties of the configuration route\<close>

lemma update_swap_list:
  "k \<noteq> k' \<Longrightarrow> k \<in> fst ` set al \<Longrightarrow>
   AList.update k' v' (AList.update k v al) = AList.update k v (AList.update k' v' al)"
  by (induction al) auto

lemma dict_update_Nil: "dict_update d [] = d"
  by (simp add: dict_update_def)

lemma dict_update_Cons: "dict_update d ((k, v) # new) = dict_update (AList.update k v d) new"
  by (simp add: dict_update_def)

lemma dict_update_keys: "k \<in> fst ` set d \<Longrightarrow> k \<in> fst ` set (dict_update d new)"
proof (induction new arbitrary: d)
  case Nil
  then show ?case by (simp add: dict_update_Nil)
next
  case (Cons p new)
  obtain k' v' where p: "p = (k', v')" by (cases p)
  from Cons.prems have "k \<in> fst ` set (AList.update k' v' d)"
    by (simp add: dom_update)
  from Cons.IH [OF this] p show ?case by (simp add: dict_update_Cons)
qed

lemma dict_update_push:
  "k \<in> fst ` set d \<Longrightarrow>
   dict_update (AList.update k v d) new
     = (if k \<in> fst ` set new then dict_update d new else AList.update k v (dict_update d new))"
proof (induction new arbitrary: d)
  case Nil
  then show ?case by (simp add: dict_update_Nil)
next
  case (Cons p new)
  obtain k' v' where p: "p = (k', v')" by (cases p)
  show ?case
  proof (cases "k' = k")
    case True
    with p show ?thesis by (simp add: dict_update_Cons)
  next
    case False
    have sw: "AList.update k' v' (AList.update k v d) = AList.update k v (AList.update k' v' d)"
      using False Cons.prems by (simp add: update_swap_list)
    have "k \<in> fst ` set (AList.update k' v' d)"
      using Cons.prems by (simp add: dom_update)
    from Cons.IH [OF this] sw p False show ?thesis
      by (simp add: dict_update_Cons)
  qed
qed

lemma dict_update_value:
  "k \<notin> fst ` set new \<Longrightarrow> map_of (dict_update d new) k = map_of d k"
proof (induction new arbitrary: d)
  case Nil
  then show ?case by (simp add: dict_update_Nil)
next
  case (Cons p new)
  obtain k' v' where p: "p = (k', v')" by (cases p)
  with Cons.prems have "k \<noteq> k'" "k \<notin> fst ` set new" by auto
  from Cons.IH [OF this(2)] this(1) p show ?case
    by (simp add: dict_update_Cons update_conv')
qed

lemma dict_update_idem: "dict_update (dict_update d new) new = dict_update d new"
proof (induction new arbitrary: d)
  case Nil
  then show ?case by (simp add: dict_update_Nil)
next
  case (Cons p new)
  obtain k v where p: "p = (k, v)" by (cases p)
  let ?d1 = "AList.update k v d"
  let ?D = "dict_update ?d1 new"
  have kD: "k \<in> fst ` set ?D"
    by (rule dict_update_keys) (simp add: dom_update)
  have "dict_update (AList.update k v ?D) new = ?D"
  proof (cases "k \<in> fst ` set new")
    case True
    with dict_update_push [OF kD] Cons.IH show ?thesis by simp
  next
    case False
    have "map_of ?D k = Some v"
      using dict_update_value [OF False, of ?d1] by (simp add: update_conv')
    then have "AList.update k v ?D = ?D" by (rule update_triv)
    with Cons.IH show ?thesis by simp
  qed
  with p show ?case by (simp add: dict_update_Cons)
qed

lemma map_of_dict_update: "map_of (dict_update d new) = map_of d ++ map_of (rev new)"
proof (induction new arbitrary: d)
  case Nil
  then show ?case by (simp add: dict_update_Nil)
next
  case (Cons p new)
  obtain k v where p: "p = (k, v)" by (cases p)
  have "map_of (dict_update d (p # new)) = map_of (AList.update k v d) ++ map_of (rev new)"
    using Cons.IH p by (simp add: dict_update_Cons)
  also have "\<dots> = map_of d ++ ([k \<mapsto> v] ++ map_of (rev new))"
    by (simp add: update_conv' map_add_upd_left fun_eq_iff map_add_def split: option.splits)
  also have "\<dots> = map_of d ++ map_of (rev (p # new))"
    using p by (simp add: map_of_append)
  finally show ?case .
qed

text \<open>
  Claim C8. Posting the same configuration payload a second time changes nothing: the
  configuration in memory, the configuration file and the response are those of the
  first post. A non-empty payload leaves, in memory and in the file, the previous
  configuration in memory with the payload's top-level keys set to the payload's
  values (a value that is an object replaces the previous one whole).
\<close>

theorem config_post_idempotent:
  "config_post new_config (fst (config_post new_config cs)) = config_post new_config cs
   \<and> in_memory (fst (config_post new_config cs))
       = (if new_config = [] then in_memory cs else dict_update (in_memory cs) new_config)
   \<and> persisted (fst (config_post new_config cs))
       = (if new_config = [] then persisted cs else dict_update (in_memory cs) new_config)
   \<and> map_of (dict_update (in_memory cs) new_config)
       = map_of (in_memory cs) ++ map_of (rev new_config)"
  by (simp add: config_post_def Let_def dict_update_idem map_of_dict_update)

theorem config_post_idempotent_witness:
  "fst (config_post [(''forwardingPhoneNumber'', JStr ''+15550100'')]
          \<lparr> in_memory = default_config, persisted = default_config \<rparr>)
     = fst (config_post [(''forwardingPhoneNumber'', JStr ''+15550100'')]
         (fst (config_post [(''forwardingPhoneNumber'', JStr ''+15550100'')]
            \<lparr> in_memory = default_config, persisted = default_config \<rparr>)))
   \<and> map_of (in_memory (fst (config_post [(''forwardingPhoneNumber'', JStr ''+15550100'')]
          \<lparr> in_memory = default_config, persisted = default_config \<rparr>))) ''forwardingPhoneNumber''
     = Some (JStr ''+15550100'')"
  using config_post_idempotent [of "[(''forwardingPhoneNumber'', JStr ''+15550100'')]"
      "\<lparr> in_memory = default_config, persisted = default_config \<rparr>"]
  by (simp add: default_config_def dict_update_def)

end
